theory Spec2Isabelle
  imports Complex_Main
begin

section \<open>Rule row: the mock rule model and its heap\<close>

text \<open>
  \<^verbatim>\<open>src/components/mock/rule-row.tsx\<close> edits one \<^verbatim>\<open>HtkMockRule\<close>, reached through
  \<^verbatim>\<open>this.props.value\<close>. The rule, its matcher array and every matcher are JavaScript
  objects: they are compared and shared by identity. The model therefore keeps an explicit
  store. A reference is an address; the store maps the address of a rule to its fields, the
  address of an array to its elements (themselves addresses of matchers), and the address
  of a matcher to its content. \<open>next_ref\<close> is the next address that an allocation hands out.
\<close>

type_synonym ref = nat

text \<open>
  A matcher object is either an instance of mockttp's \<^verbatim>\<open>matchers.MethodMatcher\<close>, with its
  \<^verbatim>\<open>method\<close> field (a member of mockttp's \<^verbatim>\<open>Method\<close> enum, type \<open>'m\<close>), or an instance of some
  other matcher class, with content of type \<open>'k\<close>.
\<close>

datatype ('m, 'k) Matcher = MethodMatcher 'm | OtherMatcher 'k

text \<open>
  The two fields of \<^verbatim>\<open>HtkMockRule\<close> that the row reads and writes: \<^verbatim>\<open>matchers\<close> holds the
  address of an array object, \<^verbatim>\<open>handler\<close> holds the handler (opaque, type \<open>'h\<close>).
\<close>

record 'h HtkMockRule =
  matchers :: ref
  handler :: 'h

record ('m, 'k, 'h) Store =
  rule_objs :: "ref \<Rightarrow> 'h HtkMockRule"
  array_objs :: "ref \<Rightarrow> ref list"
  matcher_objs :: "ref \<Rightarrow> ('m, 'k) Matcher"
  next_ref :: ref

text \<open>\<^verbatim>\<open>RuleRowProps\<close>; the two callbacks \<^verbatim>\<open>toggleCollapse\<close> and \<^verbatim>\<open>deleteRule\<close> play no part
  in the operations below. \<open>props_value\<close> is the field \<^verbatim>\<open>value\<close>.\<close>

record RuleRowProps =
  props_value :: ref
  collapsed :: bool
  rowDisabled :: bool

subsection \<open>The array built-ins the row calls\<close>

text \<open>
  \<^verbatim>\<open>Array.prototype.push(x)\<close> appends to the array object itself.
\<close>

definition array_push :: "ref \<Rightarrow> ref \<Rightarrow> ('m, 'k, 'h) Store \<Rightarrow> ('m, 'k, 'h) Store" where
  "array_push a x h = h\<lparr>array_objs := (array_objs h)(a := array_objs h a @ [x])\<rparr>"

text \<open>
  \<^verbatim>\<open>Array.prototype.splice(start, deleteCount, ...items)\<close> on the elements, for integer
  arguments: a negative start counts from the end and is clamped at 0, a start beyond the
  end is clamped at the length, and the delete count is clamped between 0 and the number of
  elements from the start on.
\<close>

definition splice :: "int \<Rightarrow> int \<Rightarrow> 'a list \<Rightarrow> 'a list \<Rightarrow> 'a list" where
  "splice start deleteCount items xs =
     (let len = int (length xs);
          actualStart = (if start < 0 then max (len + start) 0 else min start len);
          actualDeleteCount = min (max deleteCount 0) (len - actualStart)
      in take (nat actualStart) xs @ items @ drop (nat (actualStart + actualDeleteCount)) xs)"

definition array_splice ::
  "ref \<Rightarrow> int \<Rightarrow> int \<Rightarrow> ref list \<Rightarrow> ('m, 'k, 'h) Store \<Rightarrow> ('m, 'k, 'h) Store" where
  "array_splice a start deleteCount items h =
     h\<lparr>array_objs := (array_objs h)(a := splice start deleteCount items (array_objs h a))\<rparr>"

text \<open>
  \<^verbatim>\<open>Array.prototype.filter(f)\<close> leaves its receiver alone and returns a newly allocated
  array with the elements that satisfy \<open>f\<close>, in order.
\<close>

definition array_filter ::
  "(ref \<Rightarrow> bool) \<Rightarrow> ref \<Rightarrow> ('m, 'k, 'h) Store \<Rightarrow> ref \<times> ('m, 'k, 'h) Store" where
  "array_filter f a h =
     (next_ref h,
      h\<lparr>array_objs := (array_objs h)(next_ref h := filter f (array_objs h a)),
        next_ref := Suc (next_ref h)\<rparr>)"

subsection \<open>The four mutation operations of \<^verbatim>\<open>RuleRow\<close>\<close>

text \<open>\<^verbatim>\<open>addMatcher(matcher) { this.props.value.matchers.push(matcher); }\<close>\<close>

definition addMatcher ::
  "RuleRowProps \<Rightarrow> ref \<Rightarrow> ('m, 'k, 'h) Store \<Rightarrow> ('m, 'k, 'h) Store" where
  "addMatcher p matcher h = array_push (matchers (rule_objs h (props_value p))) matcher h"

text \<open>\<^verbatim>\<open>updateMatcher(index, ...matchers) { this.props.value.matchers.splice(index, 1, ...matchers); }\<close>\<close>

definition updateMatcher ::
  "RuleRowProps \<Rightarrow> int \<Rightarrow> ref list \<Rightarrow> ('m, 'k, 'h) Store \<Rightarrow> ('m, 'k, 'h) Store" where
  "updateMatcher p index ms h =
     array_splice (matchers (rule_objs h (props_value p))) index 1 ms h"

text \<open>
  \<^verbatim>\<open>deleteMatcher(matcher) { const { value: rule } = this.props;
     rule.matchers = rule.matchers.filter(m => m !== matcher); }\<close>

  \<^verbatim>\<open>!==\<close> on two objects compares their identity, here their addresses.
\<close>

definition deleteMatcher ::
  "RuleRowProps \<Rightarrow> ref \<Rightarrow> ('m, 'k, 'h) Store \<Rightarrow> ('m, 'k, 'h) Store" where
  "deleteMatcher p matcher h =
     (let rule = props_value p;
          (a, h') = array_filter (\<lambda>m. m \<noteq> matcher) (matchers (rule_objs h rule)) h
      in h'\<lparr>rule_objs := (rule_objs h')(rule := (rule_objs h' rule)\<lparr>matchers := a\<rparr>)\<rparr>)"

text \<open>\<^verbatim>\<open>updateHandler(handler) { this.props.value.handler = handler; }\<close>\<close>

definition updateHandler ::
  "RuleRowProps \<Rightarrow> 'h \<Rightarrow> ('m, 'k, 'h) Store \<Rightarrow> ('m, 'k, 'h) Store" where
  "updateHandler p handler' h =
     (let rule = props_value p
      in h\<lparr>rule_objs := (rule_objs h)(rule := (rule_objs h rule)\<lparr>handler := handler'\<rparr>)\<rparr>)"

text \<open>The matcher list of the row's rule, \<^verbatim>\<open>this.props.value.matchers\<close>, read through the store.\<close>

definition rule_matchers :: "RuleRowProps \<Rightarrow> ('m, 'k, 'h) Store \<Rightarrow> ref list" where
  "rule_matchers p h = array_objs h (matchers (rule_objs h (props_value p)))"

definition rule_handler :: "RuleRowProps \<Rightarrow> ('m, 'k, 'h) Store \<Rightarrow> 'h" where
  "rule_handler p h = handler (rule_objs h (props_value p))"

subsection \<open>The method badge computed by \<^verbatim>\<open>render\<close>\<close>

text \<open>
  \<^verbatim>\<open>const initialMatcher = rule.matchers.length ? rule.matchers[0] : undefined;\<close>
\<close>

definition initialMatcher :: "RuleRowProps \<Rightarrow> ('m, 'k, 'h) Store \<Rightarrow> ref option" where
  "initialMatcher p h =
     (let ms = array_objs h (matchers (rule_objs h (props_value p)))
      in if length ms \<noteq> 0 then Some (ms ! 0) else None)"

text \<open>
  The local \<^verbatim>\<open>method\<close> of \<^verbatim>\<open>render\<close>. \<open>Method\<close> is the reverse mapping \<^verbatim>\<open>Method[...]\<close> of
  mockttp's enum, from a member to its name; it is a parameter.
\<close>

definition render_method ::
  "('m \<Rightarrow> string) \<Rightarrow> RuleRowProps \<Rightarrow> ('m, 'k, 'h) Store \<Rightarrow> string option" where
  "render_method Method p h =
     (case initialMatcher p h of
        Some r \<Rightarrow>
          (case matcher_objs h r of
             MethodMatcher m \<Rightarrow> Some (Method m)
           | OtherMatcher k \<Rightarrow> Some ''unknown'')
      | None \<Rightarrow> None)"

text \<open>
  \<^verbatim>\<open>borderColor={method ? getMethodColor(method) : 'transparent'}\<close>: a string is truthy when
  it is not empty. \<open>getMethodColor\<close> comes from \<^verbatim>\<open>model/exchange-colors\<close> and is a parameter.
\<close>

definition render_borderColor ::
  "('m \<Rightarrow> string) \<Rightarrow> (string \<Rightarrow> string) \<Rightarrow> RuleRowProps \<Rightarrow> ('m, 'k, 'h) Store \<Rightarrow> string" where
  "render_borderColor Method getMethodColor p h =
     (case render_method Method p h of
        Some method \<Rightarrow> if method \<noteq> [] then getMethodColor method else ''transparent''
      | None \<Rightarrow> ''transparent'')"

section \<open>Intercept option: one interceptor card\<close>

text \<open>
  The second source file (\<^verbatim>\<open>InterceptOption\<close>) renders one interceptor, keeps one observable
  field \<^verbatim>\<open>expanded\<close>, and talks to the rest of the application through calls: analytics
  (\<^verbatim>\<open>trackEvent\<close>), the interceptor store, the \<^verbatim>\<open>showRequests\<close> callback and the DOM.
\<close>

text \<open>\<^verbatim>\<open>InterceptorCustomUiConfig\<close>; the two component types are opaque (\<open>'cc\<close>, \<open>'cp\<close>).\<close>

record ('cc, 'cp) InterceptorCustomUiConfig =
  columnWidth :: int
  rowHeight :: int
  configComponent :: 'cc
  customPill :: "'cp option"

text \<open>
  The fields of the \<^verbatim>\<open>Interceptor\<close> model object that the component reads. \<open>id'\<close> is the
  field \<^verbatim>\<open>id\<close>; \<open>iconProps\<close> is opaque (\<open>'ic\<close>).
\<close>

record ('ic, 'cc, 'cp) Interceptor =
  id' :: string
  name :: string
  description :: "string list"
  iconProps :: 'ic
  isActive :: bool
  isActivable :: bool
  isSupported :: bool
  inProgress :: bool
  uiConfig :: "('cc, 'cp) InterceptorCustomUiConfig option"

text \<open>The elements that \<^verbatim>\<open>render\<close> and \<^verbatim>\<open>getStatusPill\<close> produce.\<close>

datatype ('ic, 'cc, 'cp) Element =
    Icon 'ic
  | H1 string
  | CloseButton
  | ConfigComponent 'cc
  | P string
  | CustomPill 'cp
  | StatusPill "string option" string
  | LoadingOverlay

text \<open>
  \<^verbatim>\<open>getStatusPill\<close>: \<^verbatim>\<open>interceptor.uiConfig?.customPill\<close> is truthy exactly when the UI config is
  there and has a custom pill component. A \<open>StatusPill\<close> carries its optional colour and its text.
\<close>

definition getStatusPill ::
  "('ic, 'cc, 'cp) Interceptor \<Rightarrow> ('ic, 'cc, 'cp) Element option" where
  "getStatusPill interceptor =
     (case (case uiConfig interceptor of Some c \<Rightarrow> customPill c | None \<Rightarrow> None) of
        Some pill \<Rightarrow> Some (CustomPill pill)
      | None \<Rightarrow>
          if isActive interceptor then Some (StatusPill (Some ''#4caf7d'') ''Activated'')
          else if \<not> isActivable interceptor then
            (if isSupported interceptor then Some (StatusPill None ''Not available'')
             else Some (StatusPill (Some ''#e1421f'') ''Coming soon''))
          else None)"

text \<open>
  What the component does to the outside, in the order of the calls: \<^verbatim>\<open>trackEvent\<close> with its
  category, action and label; \<^verbatim>\<open>interceptorStore.activateInterceptor(id, options)\<close>; the
  animation-frame request that scrolls the card into view; \<^verbatim>\<open>showRequests()\<close>.
\<close>

datatype 'o Effect =
    TrackEvent string string string
  | ActivateInterceptor string "'o option"
  | ScrollCardIntoView
  | ShowRequests

text \<open>
  The promise returned by the store's \<^verbatim>\<open>activateInterceptor\<close> is the store's business: it may
  stay pending, be rejected, or be fulfilled with a truthy or falsy value.
\<close>

datatype Settled = Pending | Rejected | Fulfilled bool

text \<open>
  The component: its props \<^verbatim>\<open>interceptor\<close> and \<^verbatim>\<open>index\<close>, its field \<^verbatim>\<open>expanded\<close>, and the
  calls it has made so far. The interceptor model object is part of the state, so that an
  operation that wrote to one of its fields would show.
\<close>

record ('ic, 'cc, 'cp, 'o) InterceptOption =
  interceptor :: "('ic, 'cc, 'cp) Interceptor"
  index :: int
  expanded :: bool
  effects :: "'o Effect list"

text \<open>The props that \<^verbatim>\<open>render\<close> gives to \<^verbatim>\<open>InterceptOptionCard\<close>, and the card's children.\<close>

record ('ic, 'cc, 'cp) InterceptOptionCard =
  card_index :: int
  card_expanded :: bool
  card_uiConfig :: "('cc, 'cp) InterceptorCustomUiConfig option"
  card_disabled :: bool
  card_onClick :: bool
  card_tabIndex :: "int option"
  card_children :: "('ic, 'cc, 'cp) Element list"

text \<open>
  \<^verbatim>\<open>render\<close>. \<open>card_onClick\<close> says whether \<^verbatim>\<open>this.onClick\<close> is attached
  (\<^verbatim>\<open>onClick={this.expanded ? undefined : this.onClick}\<close>). The config component is shown when
  the UI config is there and the card is expanded; otherwise the description paragraphs, the
  status pill if any, and the loading overlay while activation is in progress.
\<close>

definition render ::
  "('ic, 'cc, 'cp, 'o) InterceptOption \<Rightarrow> ('ic, 'cc, 'cp) InterceptOptionCard" where
  "render s =
     (let interceptor = interceptor s;
          isDisabled = \<not> isActivable interceptor
      in \<lparr>card_index = index s,
          card_expanded = expanded s,
          card_uiConfig = uiConfig interceptor,
          card_disabled = isDisabled,
          card_onClick = (\<not> expanded s),
          card_tabIndex = (if \<not> isDisabled \<and> \<not> expanded s then Some 0 else None),
          card_children =
            [Icon (iconProps interceptor), H1 (name interceptor)] @
            (case (if expanded s then uiConfig interceptor else None) of
               Some c \<Rightarrow> [CloseButton, ConfigComponent (configComponent c)]
             | None \<Rightarrow>
                 map P (description interceptor) @
                 (case getStatusPill interceptor of Some pill \<Rightarrow> [pill] | None \<Rightarrow> []) @
                 (if inProgress interceptor then [LoadingOverlay] else []))\<rparr>)"

text \<open>
  \<^verbatim>\<open>activateInterceptor = (options?) =>
     interceptorStore!.activateInterceptor(interceptor.id, options)\<close>
\<close>

definition activateInterceptor ::
  "'o option \<Rightarrow> ('ic, 'cc, 'cp, 'o) InterceptOption \<Rightarrow> ('ic, 'cc, 'cp, 'o) InterceptOption" where
  "activateInterceptor options s =
     s\<lparr>effects := effects s @ [ActivateInterceptor (id' (interceptor s)) options]\<rparr>"

text \<open>
  \<^verbatim>\<open>onClick\<close>. The event is tracked first; a card that is not activable stops there; a card
  with a UI config expands and asks for a scroll; any other card asks the store to activate
  its interceptor. The \<^verbatim>\<open>then\<close> callback runs once the store's promise is fulfilled, and acts
  only on a truthy value: \<open>outcome\<close> is how that promise ends.
\<close>

definition onClick ::
  "Settled \<Rightarrow> ('ic, 'cc, 'cp, 'o) InterceptOption \<Rightarrow> ('ic, 'cc, 'cp, 'o) InterceptOption" where
  "onClick outcome s =
     (let interceptor = interceptor s;
          s1 = s\<lparr>effects := effects s @ [TrackEvent ''Interceptors'' ''Activated'' (id' interceptor)]\<rparr>
      in if \<not> isActivable interceptor then s1
         else if uiConfig interceptor \<noteq> None then
           s1\<lparr>expanded := True, effects := effects s1 @ [ScrollCardIntoView]\<rparr>
         else
           s1\<lparr>effects := effects s1 @ [ActivateInterceptor (id' interceptor) None] @
                (case outcome of
                   Fulfilled True \<Rightarrow>
                     [TrackEvent ''Interceptors'' ''Successfully Activated'' (id' interceptor),
                      ShowRequests]
                 | _ \<Rightarrow> [])\<rparr>)"

text \<open>\<^verbatim>\<open>onClose() { this.expanded = false; }\<close>\<close>

definition onClose ::
  "('ic, 'cc, 'cp, 'o) InterceptOption \<Rightarrow> ('ic, 'cc, 'cp, 'o) InterceptOption" where
  "onClose s = s\<lparr>expanded := False\<rparr>"

text \<open>A click on the card reaches \<^verbatim>\<open>onClick\<close> when \<^verbatim>\<open>render\<close> has attached it.\<close>

definition click ::
  "Settled \<Rightarrow> ('ic, 'cc, 'cp, 'o) InterceptOption \<Rightarrow> ('ic, 'cc, 'cp, 'o) InterceptOption" where
  "click outcome s = (if card_onClick (render s) then onClick outcome s else s)"

text \<open>
  The operations of the component, and runs of them. \<^verbatim>\<open>render\<close> computes the card above and
  assigns nothing, so it leaves the state as it is.
\<close>

datatype 'o Operation = Render | OnClick Settled | OnClose | ActivateInterceptorWith "'o option"

fun step ::
  "'o Operation \<Rightarrow> ('ic, 'cc, 'cp, 'o) InterceptOption \<Rightarrow> ('ic, 'cc, 'cp, 'o) InterceptOption" where
  "step Render s = s"
| "step (OnClick outcome) s = onClick outcome s"
| "step OnClose s = onClose s"
| "step (ActivateInterceptorWith options) s = activateInterceptor options s"

fun run ::
  "'o Operation list \<Rightarrow> ('ic, 'cc, 'cp, 'o) InterceptOption \<Rightarrow> ('ic, 'cc, 'cp, 'o) InterceptOption" where
  "run [] s = s"
| "run (operation # rest) s = run rest (step operation s)"

text \<open>The calls to the store among some effects: the interceptor id and the options of each.\<close>

fun activations :: "'o Effect list \<Rightarrow> (string \<times> 'o option) list" where
  "activations [] = []"
| "activations (ActivateInterceptor i options # es) = (i, options) # activations es"
| "activations (e # es) = activations es"

section \<open>Breakpointed response card: status and header edits\<close>

text \<open>
  A JavaScript \<^verbatim>\<open>number\<close>, as far as truthiness goes: \<^verbatim>\<open>NaN\<close>, the two infinities, and the
  finite values. \<open>Finite 0\<close> stands for both zeros, which are equally falsy.
\<close>

datatype number = NaN | PosInfinity | NegInfinity | Finite real

fun truthy_number :: "number \<Rightarrow> bool" where
  "truthy_number NaN = False"
| "truthy_number PosInfinity = True"
| "truthy_number NegInfinity = True"
| "truthy_number (Finite x) = (x \<noteq> 0)"

text \<open>The type \<^verbatim>\<open>number | ''\<close> of the status code that the status editor hands over.\<close>

datatype StatusCodeInput = EmptyString | Number number

text \<open>\<^verbatim>\<open>statusCode || NaN\<close>: the left operand when it is truthy, \<^verbatim>\<open>NaN\<close> otherwise.\<close>

fun or_NaN :: "StatusCodeInput \<Rightarrow> number" where
  "or_NaN EmptyString = NaN"
| "or_NaN (Number n) = (if truthy_number n then n else NaN)"

text \<open>
  The object literals passed to \<^verbatim>\<open>this.props.onChange\<close>, as the list of their properties in
  the order written. Headers are opaque (\<open>'hs\<close>).
\<close>

datatype 'hs JSValue = VNumber number | VString string | VUndefined | VHeaders 'hs

fun string_or_undefined :: "string option \<Rightarrow> 'hs JSValue" where
  "string_or_undefined (Some s) = VString s"
| "string_or_undefined None = VUndefined"

text \<open>
  \<^verbatim>\<open>onStatusChange(statusCode, statusMessage) {
     this.props.onChange({ statusCode: statusCode || NaN, statusMessage }); }\<close>

  \<open>onChange\<close> is the callback of the props.
\<close>

definition onStatusChange ::
  "((string \<times> 'hs JSValue) list \<Rightarrow> 'r) \<Rightarrow> StatusCodeInput \<Rightarrow> string option \<Rightarrow> 'r" where
  "onStatusChange onChange statusCode statusMessage =
     onChange [(''statusCode'', VNumber (or_NaN statusCode)),
               (''statusMessage'', string_or_undefined statusMessage)]"

text \<open>
  \<^verbatim>\<open>onHeadersChanged(headers) { this.props.onChange({ headers: headersArrayToHeaders(headers) }); }\<close>

  \<open>headersArrayToHeaders\<close> comes from \<^verbatim>\<open>common/editable-headers\<close> and is a parameter.
\<close>

definition onHeadersChanged ::
  "((string \<times> 'hs JSValue) list \<Rightarrow> 'r) \<Rightarrow> ('ha \<Rightarrow> 'hs) \<Rightarrow> 'ha \<Rightarrow> 'r" where
  "onHeadersChanged onChange headersArrayToHeaders headers =
     onChange [(''headers'', VHeaders (headersArrayToHeaders headers))]"

section \<open>Example inputs\<close>

text \<open>
  A rule at address 0 whose matcher array, at address 1, holds three matchers: a method
  matcher at address 2 and two path matchers with the same content at addresses 3 and 4.
\<close>

definition demo_props :: RuleRowProps where
  "demo_props = \<lparr>props_value = 0, collapsed = False, rowDisabled = False\<rparr>"

definition demo_store :: "(string, string, string) Store" where
  "demo_store =
     \<lparr>rule_objs = (\<lambda>r. \<lparr>matchers = 1, handler = ''passthrough''\<rparr>),
      array_objs = (\<lambda>a. if a = 1 then [2, 3, 4] else []),
      matcher_objs = (\<lambda>r. if r = 2 then MethodMatcher ''GET'' else OtherMatcher ''/path''),
      next_ref = 5\<rparr>"

text \<open>The same rule with no matcher at all.\<close>

definition empty_store :: "(string, string, string) Store" where
  "empty_store = demo_store\<lparr>array_objs := (\<lambda>a. [])\<rparr>"

text \<open>An interceptor that can be activated and has no UI config, and one that has.\<close>

definition demo_interceptor :: "(string, string, string) Interceptor" where
  "demo_interceptor =
     \<lparr>id' = ''fresh-chrome'', name = ''Chrome'', description = [''Intercept a fresh Chrome window''],
      iconProps = ''chrome'', isActive = False, isActivable = True, isSupported = True,
      inProgress = False, uiConfig = None\<rparr>"

definition demo_uiConfig :: "(string, string) InterceptorCustomUiConfig" where
  "demo_uiConfig =
     \<lparr>columnWidth = 2, rowHeight = 2, configComponent = ''ManualConfig'', customPill = None\<rparr>"

definition demo_option :: "(string, string, string, unit) InterceptOption" where
  "demo_option = \<lparr>interceptor = demo_interceptor, index = 0, expanded = False, effects = []\<rparr>"

definition with_ui_option :: "(string, string, string, unit) InterceptOption" where
  "with_ui_option = demo_option\<lparr>interceptor := demo_interceptor\<lparr>uiConfig := Some demo_uiConfig\<rparr>\<rparr>"

definition not_activable_option :: "(string, string, string, unit) InterceptOption" where
  "not_activable_option = demo_option\<lparr>interceptor := demo_interceptor\<lparr>isActivable := False\<rparr>\<rparr>"

definition custom_pill_interceptor :: "(string, string, string) Interceptor" where
  "custom_pill_interceptor =
     demo_interceptor\<lparr>isActive := True,
       uiConfig := Some (demo_uiConfig\<lparr>customPill := Some ''ManualPill''\<rparr>)\<rparr>"

section \<open>Rule row: properties\<close>

lemma splice_one_in_range:
  assumes "i < length xs"
  shows "splice (int i) 1 items xs = take i xs @ items @ drop (Suc i) xs"
proof -
  have "min (int i) (int (length xs)) = int i"
    using assms by simp
  moreover have "min (max (1::int) 0) (int (length xs) - int i) = 1"
    using assms by simp
  ultimately show ?thesis
    by (simp add: splice_def Let_def nat_add_distrib)
qed

text \<open>
  Claim C1. For a rule with matcher list \<open>ms\<close>, an index \<open>i\<close> with \<open>0 \<le> i < length ms\<close> and
  a replacement list \<open>rs\<close>, \<open>updateMatcher i rs\<close> leaves the rule's matcher list equal to
  \<open>take i ms @ rs @ drop (i + 1) ms\<close>: the one matcher at \<open>i\<close> is replaced by the given
  matchers and the others keep their order.
\<close>

theorem updateMatcher_replaces_one:
  assumes "rule_matchers p h = ms" and "i < length ms"
  shows "rule_matchers p (updateMatcher p (int i) rs h) = take i ms @ rs @ drop (i + 1) ms"
  using assms
  by (simp add: rule_matchers_def updateMatcher_def array_splice_def splice_one_in_range)

lemma demo_matchers: "rule_matchers demo_props demo_store = [2, 3, 4]"
  by (simp add: rule_matchers_def demo_props_def demo_store_def)

theorem updateMatcher_replaces_one_witness:
  "rule_matchers demo_props (updateMatcher demo_props 1 [7, 8] demo_store) = [2, 7, 8, 4]"
  using updateMatcher_replaces_one [of demo_props demo_store "[2, 3, 4]" 1 "[7, 8]"] demo_matchers
  by simp

text \<open>
  Claim C2. \<open>deleteMatcher m\<close> leaves the rule's matcher list equal to the old list without
  the elements identical to \<open>m\<close>, the others in their order. Identity is the address: a
  matcher at another address stays, also when its content equals the content of \<open>m\<close>. The
  matcher objects themselves are not touched.
\<close>

theorem deleteMatcher_removes_identical:
  "rule_matchers p (deleteMatcher p m h) = filter (\<lambda>x. x \<noteq> m) (rule_matchers p h) \<and>
   m \<notin> set (rule_matchers p (deleteMatcher p m h)) \<and>
   matcher_objs (deleteMatcher p m h) = matcher_objs h \<and>
   (\<forall>r. r \<in> set (rule_matchers p h) \<and> r \<noteq> m \<and> matcher_objs h r = matcher_objs h m
        \<longrightarrow> r \<in> set (rule_matchers p (deleteMatcher p m h)))"
  by (simp add: rule_matchers_def deleteMatcher_def array_filter_def Let_def)

theorem deleteMatcher_removes_identical_witness:
  "rule_matchers demo_props (deleteMatcher demo_props 3 demo_store) = [2, 4] \<and>
   matcher_objs demo_store 4 = matcher_objs demo_store 3"
  using deleteMatcher_removes_identical [of demo_props 3 demo_store] demo_matchers
  by (simp add: demo_store_def)

text \<open>
  Claim C3. \<open>addMatcher m\<close> leaves the rule's matcher list equal to \<open>ms @ [m]\<close>: the new
  matcher comes last, and the matchers already there keep their positions and their content.
\<close>

theorem addMatcher_appends:
  "rule_matchers p (addMatcher p m h) = rule_matchers p h @ [m] \<and>
   matcher_objs (addMatcher p m h) = matcher_objs h"
  by (simp add: rule_matchers_def addMatcher_def array_push_def)

text \<open>
  Claim C4. The method badge depends on the first matcher only. With no matcher there is no
  method and the border is transparent; a first matcher that is a \<open>MethodMatcher\<close> gives the
  name of its method (and the colour of that name, when the name is not empty); any other
  first matcher gives \<open>unknown\<close>. Two rules whose first matchers have the same content get
  the same badge, whatever follows.
\<close>

theorem method_badge_from_first_matcher:
  "(rule_matchers p h = [] \<longrightarrow>
      render_method Method p h = None \<and> render_borderColor Method gc p h = ''transparent'') \<and>
   (rule_matchers p h = r # rest \<and> matcher_objs h r = MethodMatcher m \<longrightarrow>
      render_method Method p h = Some (Method m) \<and>
      (Method m \<noteq> [] \<longrightarrow> render_borderColor Method gc p h = gc (Method m))) \<and>
   (rule_matchers p h = r # rest \<and> matcher_objs h r = OtherMatcher k \<longrightarrow>
      render_method Method p h = Some ''unknown'' \<and>
      render_borderColor Method gc p h = gc ''unknown'') \<and>
   (rule_matchers p h = r # rest \<and> rule_matchers p' h' = r' # rest' \<and>
    matcher_objs h r = matcher_objs h' r' \<longrightarrow>
      render_method Method p h = render_method Method p' h' \<and>
      render_borderColor Method gc p h = render_borderColor Method gc p' h')"
  by (simp add: rule_matchers_def render_method_def render_borderColor_def initialMatcher_def Let_def)

theorem method_badge_from_first_matcher_witness:
  "render_method (\<lambda>m. m) demo_props empty_store = None \<and>
   render_borderColor (\<lambda>m. m) (\<lambda>m. ''color of '' @ m) demo_props empty_store = ''transparent'' \<and>
   render_method (\<lambda>m. m) demo_props demo_store = Some ''GET'' \<and>
   render_borderColor (\<lambda>m. m) (\<lambda>m. ''color of '' @ m) demo_props demo_store = ''color of GET'' \<and>
   render_method (\<lambda>m. m) demo_props (demo_store\<lparr>array_objs := (\<lambda>a. [3, 2])\<rparr>) = Some ''unknown'' \<and>
   render_method (\<lambda>m. m) demo_props (demo_store\<lparr>array_objs := (\<lambda>a. [2])\<rparr>) =
     render_method (\<lambda>m. m) demo_props demo_store"
proof -
  let ?gc = "\<lambda>m. ''color of '' @ m"
  let ?other = "demo_store\<lparr>array_objs := (\<lambda>a. [3, 2])\<rparr>"
  let ?single = "demo_store\<lparr>array_objs := (\<lambda>a. [2])\<rparr>"
  have e: "rule_matchers demo_props empty_store = []"
    by (simp add: rule_matchers_def empty_store_def)
  have d: "matcher_objs demo_store 2 = MethodMatcher ''GET''"
    by (simp add: demo_store_def)
  have o: "rule_matchers demo_props ?other = [3, 2]" "matcher_objs ?other 3 = OtherMatcher ''/path''"
    by (simp_all add: rule_matchers_def demo_store_def)
  have s: "rule_matchers demo_props ?single = [2]" "matcher_objs ?single 2 = matcher_objs demo_store 2"
    by (simp_all add: rule_matchers_def)
  show ?thesis
    using
      method_badge_from_first_matcher [of demo_props empty_store "\<lambda>m. m" ?gc 2 "[]" "''GET''" "''/path''"
        demo_props empty_store 2 "[]"]
      method_badge_from_first_matcher [of demo_props demo_store "\<lambda>m. m" ?gc 2 "[3, 4]" "''GET''" "''/path''"
        demo_props demo_store 2 "[3, 4]"]
      method_badge_from_first_matcher [of demo_props ?other "\<lambda>m. m" ?gc 3 "[2]" "''GET''" "''/path''"
        demo_props ?other 3 "[2]"]
      method_badge_from_first_matcher [of demo_props ?single "\<lambda>m. m" ?gc 2 "[]" "''GET''" "''/path''"
        demo_props demo_store 2 "[3, 4]"]
      e d o s demo_matchers
    by simp
qed

text \<open>
  Claim C5, as amended. The rule object is edited where it is: no operation allocates or
  replaces a rule object. \<open>addMatcher\<close> and \<open>updateMatcher\<close> change the elements of the
  array that the rule already refers to and allocate nothing. \<open>deleteMatcher\<close> does not: it
  stores in the rule's \<open>matchers\<close> field the address of a newly allocated array, and leaves
  the elements of the former array as they were. The hypothesis says that the rule's array
  has been allocated.
\<close>

theorem matcher_mutations_array_identity:
  assumes "matchers (rule_objs h (props_value p)) < next_ref h"
  shows "rule_objs (addMatcher p m h) = rule_objs h \<and>
         next_ref (addMatcher p m h) = next_ref h \<and>
         rule_objs (updateMatcher p i rs h) = rule_objs h \<and>
         next_ref (updateMatcher p i rs h) = next_ref h \<and>
         rule_objs (deleteMatcher p m h) =
           (rule_objs h)(props_value p := (rule_objs h (props_value p))\<lparr>matchers := next_ref h\<rparr>) \<and>
         matchers (rule_objs (deleteMatcher p m h) (props_value p)) \<noteq>
           matchers (rule_objs h (props_value p)) \<and>
         array_objs (deleteMatcher p m h) (matchers (rule_objs h (props_value p))) =
           array_objs h (matchers (rule_objs h (props_value p))) \<and>
         next_ref (deleteMatcher p m h) = Suc (next_ref h)"
  using assms
  by (simp add: addMatcher_def updateMatcher_def deleteMatcher_def array_push_def
      array_splice_def array_filter_def Let_def)

theorem matcher_mutations_array_identity_witness:
  "matchers (rule_objs demo_store (props_value demo_props)) < next_ref demo_store \<and>
   matchers (rule_objs (addMatcher demo_props 9 demo_store) (props_value demo_props)) = 1 \<and>
   matchers (rule_objs (updateMatcher demo_props 0 [9] demo_store) (props_value demo_props)) = 1 \<and>
   matchers (rule_objs (deleteMatcher demo_props 3 demo_store) (props_value demo_props)) = 5"
proof -
  have a: "matchers (rule_objs demo_store (props_value demo_props)) < next_ref demo_store"
    by (simp add: demo_store_def)
  show ?thesis
    using a matcher_mutations_array_identity [OF a, of 9 0 "[9]"]
      matcher_mutations_array_identity [OF a, of 3 0 "[]"]
    by (simp add: demo_store_def)
qed

text \<open>
  The claim as written fails for \<open>deleteMatcher\<close>: on the example rule, deleting the matcher
  at address 3 leaves the rule with another array than before, and the former array, at
  address 1, still holds all three matchers.
\<close>

theorem deleteMatcher_replaces_array_counterexample:
  "matchers (rule_objs (deleteMatcher demo_props 3 demo_store) (props_value demo_props)) \<noteq>
     matchers (rule_objs demo_store (props_value demo_props)) \<and>
   array_objs (deleteMatcher demo_props 3 demo_store)
     (matchers (rule_objs demo_store (props_value demo_props))) = [2, 3, 4]"
  by (simp add: deleteMatcher_def array_filter_def demo_props_def demo_store_def Let_def)

text \<open>
  Claim C7. \<open>updateHandler handler\<close> sets the rule's handler to exactly that handler and
  leaves the matcher list, every array and every matcher as they were; none of the three
  matcher operations changes the rule's handler. The \<open>handler\<close> field holds one handler at
  any time.
\<close>

theorem updateHandler_frame:
  "rule_handler p (updateHandler p handler' h) = handler' \<and>
   rule_matchers p (updateHandler p handler' h) = rule_matchers p h \<and>
   array_objs (updateHandler p handler' h) = array_objs h \<and>
   matcher_objs (updateHandler p handler' h) = matcher_objs h \<and>
   rule_handler p (addMatcher p m h) = rule_handler p h \<and>
   rule_handler p (updateMatcher p i rs h) = rule_handler p h \<and>
   rule_handler p (deleteMatcher p m h) = rule_handler p h"
  by (simp add: rule_handler_def rule_matchers_def updateHandler_def addMatcher_def
      updateMatcher_def deleteMatcher_def array_push_def array_splice_def array_filter_def Let_def)

section \<open>Intercept option: properties\<close>

lemma activations_append: "activations (es @ fs) = activations es @ activations fs"
  by (induction es rule: activations.induct) simp_all

lemma step_interceptor: "interceptor (step operation s) = interceptor s"
  by (cases operation) (simp_all add: onClick_def onClose_def activateInterceptor_def Let_def)

lemma step_index: "index (step operation s) = index s"
  by (cases operation) (simp_all add: onClick_def onClose_def activateInterceptor_def Let_def)

lemma onClick_activations:
  "activations (effects (onClick outcome s)) =
     activations (effects s) @
     (if isActivable (interceptor s) \<and> uiConfig (interceptor s) = None
      then [(id' (interceptor s), None)] else [])"
  by (simp add: onClick_def Let_def activations_append split: Settled.split bool.split)

lemma step_activations:
  "\<exists>new. activations (effects (step operation s)) = activations (effects s) @ new \<and>
         (\<forall>c \<in> set new. fst c = id' (interceptor s))"
  by (cases operation)
    (simp_all add: onClick_activations onClose_def activateInterceptor_def activations_append)

lemma run_interceptor: "interceptor (run ops s) = interceptor s"
  by (induction ops arbitrary: s) (simp_all add: step_interceptor)

lemma run_index: "index (run ops s) = index s"
  by (induction ops arbitrary: s) (simp_all add: step_index)

lemma run_activations:
  "\<exists>new. activations (effects (run ops s)) = activations (effects s) @ new \<and>
         (\<forall>c \<in> set new. fst c = id' (interceptor s))"
proof (induction ops arbitrary: s)
  case Nil
  then show ?case by simp
next
  case (Cons operation rest)
  obtain new1 where n1: "activations (effects (step operation s)) = activations (effects s) @ new1"
    and a1: "\<forall>c \<in> set new1. fst c = id' (interceptor s)"
    using step_activations by blast
  obtain new2 where n2: "activations (effects (run rest (step operation s))) =
      activations (effects (step operation s)) @ new2"
    and a2: "\<forall>c \<in> set new2. fst c = id' (interceptor (step operation s))"
    using Cons.IH by blast
  have "activations (effects (run (operation # rest) s)) = activations (effects s) @ (new1 @ new2)"
    using n1 n2 by simp
  moreover have "\<forall>c \<in> set (new1 @ new2). fst c = id' (interceptor s)"
    using a1 a2 by (auto simp add: step_interceptor)
  ultimately show ?case by blast
qed

text \<open>
  Claim C6. A click on the collapsed card (\<open>expanded\<close> is false, so \<open>render\<close> has attached
  \<open>onClick\<close>): when the interceptor is not activable, \<open>expanded\<close> stays false and the store
  gets no call; when it is activable and has a UI config, \<open>expanded\<close> becomes true and the
  store gets no call; when it is activable and has no UI config, the store gets exactly one
  call, \<open>activateInterceptor\<close> with the interceptor's id and no options. This holds however
  the store's promise ends.
\<close>

theorem click_collapsed_card:
  assumes "\<not> expanded s"
  shows "(\<not> isActivable (interceptor s) \<longrightarrow>
            expanded (click outcome s) = False \<and>
            activations (effects (click outcome s)) = activations (effects s)) \<and>
         (isActivable (interceptor s) \<and> uiConfig (interceptor s) \<noteq> None \<longrightarrow>
            expanded (click outcome s) = True \<and>
            activations (effects (click outcome s)) = activations (effects s)) \<and>
         (isActivable (interceptor s) \<and> uiConfig (interceptor s) = None \<longrightarrow>
            expanded (click outcome s) = False \<and>
            activations (effects (click outcome s)) =
              activations (effects s) @ [(id' (interceptor s), None)])"
proof -
  have c: "click outcome s = onClick outcome s"
    using assms by (simp add: click_def render_def Let_def)
  have e: "expanded (onClick outcome s) =
      (isActivable (interceptor s) \<and> uiConfig (interceptor s) \<noteq> None)"
    using assms by (simp add: onClick_def Let_def)
  show ?thesis
    unfolding c using e by (simp add: onClick_activations)
qed

theorem click_collapsed_card_witness:
  "\<not> expanded demo_option \<and>
   expanded (click Pending demo_option) = False \<and>
   activations (effects (click Pending demo_option)) = [(''fresh-chrome'', None)] \<and>
   expanded (click Pending with_ui_option) = True \<and>
   activations (effects (click Pending with_ui_option)) = [] \<and>
   expanded (click Pending not_activable_option) = False \<and>
   activations (effects (click Pending not_activable_option)) = []"
proof -
  have 1: "\<not> expanded demo_option" "effects demo_option = []"
    "isActivable (interceptor demo_option)" "uiConfig (interceptor demo_option) = None"
    "id' (interceptor demo_option) = ''fresh-chrome''"
    by (simp_all add: demo_option_def demo_interceptor_def)
  have 2: "\<not> expanded with_ui_option" "effects with_ui_option = []"
    "isActivable (interceptor with_ui_option)" "uiConfig (interceptor with_ui_option) \<noteq> None"
    by (simp_all add: with_ui_option_def demo_option_def demo_interceptor_def)
  have 3: "\<not> expanded not_activable_option" "effects not_activable_option = []"
    "\<not> isActivable (interceptor not_activable_option)"
    by (simp_all add: not_activable_option_def demo_option_def demo_interceptor_def)
  show ?thesis
    using click_collapsed_card [OF 1(1), of Pending] click_collapsed_card [OF 2(1), of Pending]
      click_collapsed_card [OF 3(1), of Pending] 1 2 3
    by simp
qed

text \<open>
  Claim C8. Over any run of the component's operations (\<open>render\<close>, \<open>onClick\<close>, \<open>onClose\<close>,
  \<open>activateInterceptor\<close>, in any order and with any outcome of the store's promises) the
  interceptor model object keeps every one of its fields, and so does the \<open>index\<close> prop.
  What reaches the store are calls of \<open>activateInterceptor\<close>, added after the earlier ones,
  each for the id of this interceptor.
\<close>

theorem view_never_writes_interceptor:
  "interceptor (run ops s) = interceptor s \<and>
   index (run ops s) = index s \<and>
   (\<exists>new. activations (effects (run ops s)) = activations (effects s) @ new \<and>
          (\<forall>c \<in> set new. fst c = id' (interceptor s)))"
  using run_interceptor run_index run_activations by blast

theorem view_never_writes_interceptor_witness:
  "interceptor (run [Render, OnClick (Fulfilled True), ActivateInterceptorWith (Some ()), OnClose]
      demo_option) = demo_interceptor \<and>
   activations (effects (run [Render, OnClick (Fulfilled True), ActivateInterceptorWith (Some ()), OnClose]
      demo_option)) = [(''fresh-chrome'', None), (''fresh-chrome'', Some ())]"
proof -
  let ?ops = "[Render, OnClick (Fulfilled True), ActivateInterceptorWith (Some ()), OnClose]"
  have a: "interceptor (run ?ops demo_option) = interceptor demo_option"
    using view_never_writes_interceptor [of ?ops demo_option] by blast
  have i: "interceptor demo_option = demo_interceptor" "effects demo_option = []"
    by (simp_all add: demo_option_def)
  have d: "isActivable demo_interceptor" "uiConfig demo_interceptor = None"
    "id' demo_interceptor = ''fresh-chrome''"
    by (simp_all add: demo_interceptor_def)
  have b: "activations (effects (run ?ops demo_option)) =
      [(''fresh-chrome'', None), (''fresh-chrome'', Some ())]"
    by (simp add: onClick_def onClose_def activateInterceptor_def Let_def i d)
  show ?thesis using a b i by simp
qed

text \<open>
  Claim C9. The status pill is chosen by precedence. A custom pill of the UI config wins over
  everything. Without one, the \<open>Activated\<close> pill is shown exactly when the interceptor is
  active; an interceptor that is neither active nor activable shows \<open>Not available\<close> when
  it is supported and \<open>Coming soon\<close> when it is not. There is no pill exactly when the
  interceptor is activable, not active and has no custom pill.
\<close>

theorem getStatusPill_precedence:
  "(\<forall>c pill. uiConfig i = Some c \<and> customPill c = Some pill \<longrightarrow>
      getStatusPill i = Some (CustomPill pill)) \<and>
   ((uiConfig i = None \<or> (\<exists>c. uiConfig i = Some c \<and> customPill c = None)) \<longrightarrow>
      (getStatusPill i = Some (StatusPill (Some ''#4caf7d'') ''Activated'') \<longleftrightarrow> isActive i) \<and>
      (\<not> isActive i \<and> \<not> isActivable i \<and> isSupported i \<longrightarrow>
         getStatusPill i = Some (StatusPill None ''Not available'')) \<and>
      (\<not> isActive i \<and> \<not> isActivable i \<and> \<not> isSupported i \<longrightarrow>
         getStatusPill i = Some (StatusPill (Some ''#e1421f'') ''Coming soon''))) \<and>
   (getStatusPill i = None \<longleftrightarrow>
      isActivable i \<and> \<not> isActive i \<and>
      (uiConfig i = None \<or> (\<exists>c. uiConfig i = Some c \<and> customPill c = None)))"
  by (auto simp add: getStatusPill_def split: option.splits)

theorem getStatusPill_precedence_witness:
  "getStatusPill demo_interceptor = None \<and>
   getStatusPill (demo_interceptor\<lparr>isActive := True\<rparr>) =
     Some (StatusPill (Some ''#4caf7d'') ''Activated'') \<and>
   getStatusPill (demo_interceptor\<lparr>isActivable := False\<rparr>) =
     Some (StatusPill None ''Not available'') \<and>
   getStatusPill (demo_interceptor\<lparr>isActivable := False, isSupported := False\<rparr>) =
     Some (StatusPill (Some ''#e1421f'') ''Coming soon'') \<and>
   getStatusPill custom_pill_interceptor = Some (CustomPill ''ManualPill'')"
proof -
  let ?active = "demo_interceptor\<lparr>isActive := True\<rparr>"
  let ?unavailable = "demo_interceptor\<lparr>isActivable := False\<rparr>"
  let ?soon = "demo_interceptor\<lparr>isActivable := False, isSupported := False\<rparr>"
  have 1: "uiConfig demo_interceptor = None" "isActivable demo_interceptor"
    "\<not> isActive demo_interceptor"
    by (simp_all add: demo_interceptor_def)
  have 2: "uiConfig ?active = None" "isActive ?active"
    by (simp_all add: demo_interceptor_def)
  have 3: "uiConfig ?unavailable = None" "\<not> isActivable ?unavailable"
    "\<not> isActive ?unavailable" "isSupported ?unavailable"
    by (simp_all add: demo_interceptor_def)
  have 4: "uiConfig ?soon = None" "\<not> isActivable ?soon" "\<not> isActive ?soon" "\<not> isSupported ?soon"
    by (simp_all add: demo_interceptor_def)
  have 5: "uiConfig custom_pill_interceptor = Some (demo_uiConfig\<lparr>customPill := Some ''ManualPill''\<rparr>)"
    "customPill (demo_uiConfig\<lparr>customPill := Some ''ManualPill''\<rparr>) = Some ''ManualPill''"
    by (simp_all add: custom_pill_interceptor_def)
  have a: "getStatusPill demo_interceptor = None"
    using getStatusPill_precedence [of demo_interceptor] 1 by blast
  have b: "getStatusPill ?active = Some (StatusPill (Some ''#4caf7d'') ''Activated'')"
    using getStatusPill_precedence [of ?active] 2 by blast
  have c: "getStatusPill ?unavailable = Some (StatusPill None ''Not available'')"
    using getStatusPill_precedence [of ?unavailable] 3 by blast
  have d: "getStatusPill ?soon = Some (StatusPill (Some ''#e1421f'') ''Coming soon'')"
    using getStatusPill_precedence [of ?soon] 4 by blast
  have e: "getStatusPill custom_pill_interceptor = Some (CustomPill ''ManualPill'')"
    using getStatusPill_precedence [of custom_pill_interceptor] 5 by blast
  show ?thesis using a b c d e by simp
qed

section \<open>Breakpointed response card: properties\<close>

lemma or_NaN_nonzero: "n \<noteq> Finite 0 \<Longrightarrow> or_NaN (Number n) = n"
  by (cases n) simp_all

lemma or_NaN_falsy: "or_NaN EmptyString = NaN" "or_NaN (Number (Finite 0)) = NaN"
  by simp_all

text \<open>
  Claim C10. A status edit calls \<open>onChange\<close> once, with an object of exactly the two
  properties \<open>statusCode\<close> and \<open>statusMessage\<close>. The status code is the one entered when
  that is a number other than zero, and \<open>NaN\<close> when the entry is the empty string or zero.
  The status message is the one entered (\<open>undefined\<close> when there is none).
\<close>

theorem onStatusChange_emits:
  fixes onChange :: "(string \<times> 'hs JSValue) list \<Rightarrow> 'r"
  shows
  "(\<forall>n. statusCode = Number n \<and> n \<noteq> Finite 0 \<longrightarrow>
      onStatusChange onChange statusCode statusMessage =
        onChange [(''statusCode'', VNumber n),
                  (''statusMessage'', string_or_undefined statusMessage)]) \<and>
   (statusCode = EmptyString \<or> statusCode = Number (Finite 0) \<longrightarrow>
      onStatusChange onChange statusCode statusMessage =
        onChange [(''statusCode'', VNumber NaN),
                  (''statusMessage'', string_or_undefined statusMessage)]) \<and>
   map fst (onStatusChange (\<lambda>response :: (string \<times> 'hs JSValue) list. response)
      statusCode statusMessage) = [''statusCode'', ''statusMessage'']"
  by (auto simp add: onStatusChange_def or_NaN_nonzero or_NaN_falsy simp del: or_NaN.simps(2))

theorem onStatusChange_emits_witness:
  "onStatusChange (\<lambda>response. response) (Number (Finite 404)) (Some ''Not Found'') =
     [(''statusCode'', VNumber (Finite 404)),
      (''statusMessage'', VString ''Not Found'' :: unit JSValue)] \<and>
   onStatusChange (\<lambda>response. response) EmptyString None =
     [(''statusCode'', VNumber NaN), (''statusMessage'', VUndefined :: unit JSValue)] \<and>
   onStatusChange (\<lambda>response. response) (Number (Finite 0)) (Some ''OK'') =
     [(''statusCode'', VNumber NaN), (''statusMessage'', VString ''OK'' :: unit JSValue)]"
  using
    onStatusChange_emits [of "Number (Finite 404)"
      "\<lambda>response :: (string \<times> unit JSValue) list. response" "Some ''Not Found''"]
    onStatusChange_emits [of EmptyString
      "\<lambda>response :: (string \<times> unit JSValue) list. response" None]
    onStatusChange_emits [of "Number (Finite 0)"
      "\<lambda>response :: (string \<times> unit JSValue) list. response" "Some ''OK''"]
  by simp

end
